theory Spec2Isabelle
  imports Complex_Main
begin

section \<open>Logo generator: upload, artboard selection, compositing, export\<close>

text \<open>
  A shallow embedding of the browser script (the variant with artboard selection; the
  older variant without it has the same \<open>handleFile\<close>, \<open>processImageFile\<close>,
  \<open>drawImageToCanvas\<close>, \<open>clearCanvas\<close> and \<open>downloadImage\<close>).

  JavaScript numbers are taken as exact reals: rounding of IEEE doubles and the
  truncation of a canvas element's size to whole pixels are not part of the model.
  The script's global variables and the parts of the page it reads and writes form one
  record, passed to and returned by every function. Messages shown with \<open>alert\<close> are
  appended to a log held in that record.
\<close>

subsection \<open>Strings\<close>

text \<open>\<open>name.split('.')\<close>: never empty; a string with no separator is its only part.\<close>

fun split :: "char \<Rightarrow> string \<Rightarrow> string list" where
  "split d [] = [[]]"
| "split d (c # cs) =
     (if c = d then [] # split d cs
      else (case split d cs of [] \<Rightarrow> [[c]] | p # ps \<Rightarrow> (c # p) # ps))"

text \<open>\<open>parts.pop()\<close> as used on the result of \<open>split\<close>: the last part.\<close>

definition pop :: "string list \<Rightarrow> string" where
  "pop parts = last parts"

definition lowerTable :: "(char \<times> char) list" where
  "lowerTable = zip ''ABCDEFGHIJKLMNOPQRSTUVWXYZ'' ''abcdefghijklmnopqrstuvwxyz''"

text \<open>
  \<open>toLowerCase\<close> on the bytes of the name. Only the ASCII letters change; no character
  outside ASCII lower-cases to one of the letters of the accepted extensions, so
  membership in the list of extensions is decided as in the script.
\<close>

definition toLowerChar :: "char \<Rightarrow> char" where
  "toLowerChar c = (case map_of lowerTable c of Some d \<Rightarrow> d | None \<Rightarrow> c)"

definition toLowerCase :: "string \<Rightarrow> string" where
  "toLowerCase str = map toLowerChar str"

definition validExtensions :: "string list" where
  "validExtensions = [''jpg'', ''jpeg'', ''png'', ''pdf'', ''ai'']"

definition extensionOf :: "string \<Rightarrow> string" where
  "extensionOf nm = toLowerCase (pop (split (CHR ''.'') nm))"

text \<open>
  \<open>name.replace(/\.[^/.]+$/, '')\<close>: the leftmost dot that is followed, up to the end
  of the string, by one or more characters other than \<open>/\<close> and \<open>.\<close> is removed
  together with what follows it; a string with no such dot is unchanged.
\<close>

fun stripExtension :: "string \<Rightarrow> string" where
  "stripExtension [] = []"
| "stripExtension (c # cs) =
     (if c = CHR ''.'' \<and> cs \<noteq> [] \<and> CHR ''/'' \<notin> set cs \<and> CHR ''.'' \<notin> set cs then []
      else c # stripExtension cs)"

text \<open>\<open>message.includes(pattern)\<close>: the pattern occurs as a contiguous run.\<close>

fun startsWith :: "string \<Rightarrow> string \<Rightarrow> bool" where
  "startsWith str [] = True"
| "startsWith [] (p # ps) = False"
| "startsWith (c # cs) (p # ps) = (c = p \<and> startsWith cs ps)"

fun includesStr :: "string \<Rightarrow> string \<Rightarrow> bool" where
  "includesStr [] pat = (pat = [])"
| "includesStr (c # cs) pat = (startsWith (c # cs) pat \<or> includesStr cs pat)"

subsection \<open>Geometry of the output canvas\<close>

definition CANVAS_WIDTH :: real where
  "CANVAS_WIDTH = 786"

definition CANVAS_HEIGHT :: real where
  "CANVAS_HEIGHT = 280"

text \<open>
  What \<open>drawImageToCanvas\<close> computes from \<open>img.width\<close> and \<open>img.height\<close>:
  the drawn size and the corner (the script's \<open>x\<close> and \<open>y\<close>).
\<close>

record geometry =
  drawWidth :: real
  drawHeight :: real
  offsetX :: real
  offsetY :: real

definition drawGeometry :: "real \<Rightarrow> real \<Rightarrow> geometry" where
  "drawGeometry w h =
     (let imgAspect = w / h;
          canvasAspect = CANVAS_WIDTH / CANVAS_HEIGHT;
          dw = (if imgAspect > canvasAspect then CANVAS_WIDTH * 0.9
                else (CANVAS_HEIGHT * 0.9) * imgAspect);
          dh = (if imgAspect > canvasAspect then (CANVAS_WIDTH * 0.9) / imgAspect
                else CANVAS_HEIGHT * 0.9)
      in \<lparr>drawWidth = dw, drawHeight = dh,
          offsetX = (CANVAS_WIDTH - dw) / 2, offsetY = (CANVAS_HEIGHT - dh) / 2\<rparr>)"

text \<open>The scale \<open>renderPDFPage\<close> computes from a page's viewport at scale 1.\<close>

definition pageScale :: "real \<Rightarrow> real \<Rightarrow> real" where
  "pageScale w h =
     (let scaleX = CANVAS_WIDTH / w; scaleY = CANVAS_HEIGHT / h
      in min scaleX scaleY * 0.9)"

subsection \<open>Files, documents and images\<close>

text \<open>
  A page of a parsed document: the size of its viewport at scale 1, and whether
  rendering it succeeds. A document is the list of its pages, \<open>None\<close> for a page
  that cannot be loaded. \<open>getPage\<close> is the library's: page numbers start at 1 and a
  number outside the document is rejected.
\<close>

record page =
  pwidth :: real
  pheight :: real
  renders :: bool

type_synonym pdf = "page option list"

definition numPages :: "pdf \<Rightarrow> nat" where
  "numPages doc = length doc"

definition getPage :: "pdf \<Rightarrow> nat \<Rightarrow> page option" where
  "getPage doc n = (if 1 \<le> n \<and> n \<le> length doc then doc ! (n - 1) else None)"

text \<open>The pixels of an image: decoded from the named upload, or a page at a scale.\<close>

datatype content = FilePixels string | PagePixels nat real

record image =
  imgWidth :: real
  imgHeight :: real
  pixels :: content

text \<open>
  An uploaded file: its name, what reading and decoding it as an image gives, and what
  opening it as a document gives (\<open>Inl\<close> the \<open>message\<close> of the error thrown,
  \<open>None\<close> when the error has none).
\<close>

datatype decoded = ReadError | DecodeError | Pixels nat nat

record upload =
  name :: string
  raster :: decoded
  document :: "string option + pdf"

subsection \<open>The state of the page\<close>

text \<open>
  The canvas is blank (white all over) or shows one image drawn on white at a place and
  size. A container of the selector has the page number it was made for, what its
  thumbnail task has left in it, and its selection mark. The state holds the script's
  four variables, the canvas, the save button, the file information, the loading mark
  of the upload area, the selector and the messages shown so far; the value of the
  file input, which \<open>clearCanvas\<close> empties, is left out.
\<close>

datatype canvas = Blank | Drawn image geometry

datatype thumb = Pending | Thumbnail image | LoadFailed

record slot =
  pageNo :: nat
  thumb :: thumb
  selected :: bool

datatype alert =
    UnsupportedFormat
  | ImageLoadFailed
  | FileReadFailed
  | DocumentProcessingFailed
  | IncompatibleExportMode
  | PageRenderFailed
  | NoImageAvailable

record state =
  currentFileName :: string
  hasImage :: bool
  currentPDF :: "pdf option"
  selectedArtboard :: "nat option"
  previewCanvas :: canvas
  saveDisabled :: bool
  fileInfoVisible :: bool
  fileNameText :: string
  loading :: bool
  artboardVisible :: bool
  artboardGrid :: "slot list"
  artboardCount :: nat
  alerts :: "alert list"

definition showAlert :: "alert \<Rightarrow> state \<Rightarrow> state" where
  "showAlert a s = s\<lparr>alerts := alerts s @ [a]\<rparr>"

definition initCanvas :: "state \<Rightarrow> state" where
  "initCanvas s = s\<lparr>previewCanvas := Blank\<rparr>"

definition hideArtboardSection :: "state \<Rightarrow> state" where
  "hideArtboardSection s =
     s\<lparr>artboardVisible := False, artboardGrid := [], currentPDF := None,
       selectedArtboard := None\<rparr>"

definition drawImageToCanvas :: "image \<Rightarrow> state \<Rightarrow> state" where
  "drawImageToCanvas img s =
     s\<lparr>previewCanvas := Drawn img (drawGeometry (imgWidth img) (imgHeight img)),
       hasImage := True, saveDisabled := False\<rparr>"

definition clearCanvas :: "state \<Rightarrow> state" where
  "clearCanvas s =
     hideArtboardSection
       ((initCanvas s)\<lparr>currentFileName := [], hasImage := False, saveDisabled := True,
          fileInfoVisible := False\<rparr>)"

subsection \<open>Rendering a page\<close>

text \<open>
  The image \<open>renderPDFPage\<close> hands to \<open>drawImageToCanvas\<close>, \<open>None\<close> when loading
  or rendering the page throws.
\<close>

definition pageImage :: "pdf \<Rightarrow> nat \<Rightarrow> image option" where
  "pageImage doc pageNum =
     (case getPage doc pageNum of
        None \<Rightarrow> None
      | Some pg \<Rightarrow>
          (let scale = pageScale (pwidth pg) (pheight pg)
           in if renders pg
              then Some \<lparr>imgWidth = pwidth pg * scale, imgHeight = pheight pg * scale,
                         pixels = PagePixels pageNum scale\<rparr>
              else None))"

definition renderPDFPage :: "pdf \<Rightarrow> nat \<Rightarrow> state \<Rightarrow> state" where
  "renderPDFPage doc pageNum s =
     (case pageImage doc pageNum of
        None \<Rightarrow> showAlert PageRenderFailed s
      | Some img \<Rightarrow> drawImageToCanvas img s)"

subsection \<open>Thumbnails and selection\<close>

definition newSlot :: "nat \<Rightarrow> slot" where
  "newSlot i = \<lparr>pageNo = i, thumb = Pending, selected = False\<rparr>"

text \<open>
  \<open>showArtboardSelector\<close>: one container per page, in page order. The thumbnail of
  each page is started and not awaited; it is \<open>Pending\<close> until its task ends.
\<close>

definition showArtboardSelector :: "pdf \<Rightarrow> nat \<Rightarrow> state \<Rightarrow> state" where
  "showArtboardSelector doc n s =
     s\<lparr>artboardGrid := map newSlot [1..<Suc n], selectedArtboard := None,
       artboardCount := n, artboardVisible := True\<rparr>"

text \<open>What \<open>generateThumbnail\<close> leaves in its container.\<close>

definition generateThumbnail :: "pdf \<Rightarrow> nat \<Rightarrow> thumb" where
  "generateThumbnail doc pageNum =
     (case getPage doc pageNum of
        None \<Rightarrow> LoadFailed
      | Some pg \<Rightarrow>
          (let maxWidth = 200; scale = maxWidth / pwidth pg
           in if renders pg
              then Thumbnail \<lparr>imgWidth = pwidth pg * scale, imgHeight = pheight pg * scale,
                              pixels = PagePixels pageNum scale\<rparr>
              else LoadFailed))"

text \<open>
  The end of the thumbnail task of page \<open>i\<close> of the selector on display: it writes
  to the container made for page \<open>i\<close>, the one at position \<open>i - 1\<close>.
\<close>

definition thumbnailTask :: "pdf \<Rightarrow> nat \<Rightarrow> state \<Rightarrow> state" where
  "thumbnailTask doc i s =
     s\<lparr>artboardGrid :=
         (artboardGrid s)[i - 1 := (artboardGrid s ! (i - 1))\<lparr>thumb := generateThumbnail doc i\<rparr>]\<rparr>"


text \<open>
  \<open>artboardGrid.querySelector('.selected')\<close> followed by the removal of the class:
  the first marked container loses its mark.
\<close>

fun unmarkFirst :: "slot list \<Rightarrow> slot list" where
  "unmarkFirst [] = []"
| "unmarkFirst (x # xs) =
     (if selected x then x\<lparr>selected := False\<rparr> # xs else x # unmarkFirst xs)"

text \<open>
  \<open>selectArtboard(element, pageNum)\<close>, the element given by its position in the grid.
  An element that is not in the grid is not part of the page, and marking it changes
  nothing there.
\<close>

definition selectArtboard :: "nat \<Rightarrow> nat \<Rightarrow> state \<Rightarrow> state" where
  "selectArtboard element pageNum s =
     (let g = unmarkFirst (artboardGrid s);
          g' = (if element < length g then g[element := (g ! element)\<lparr>selected := True\<rparr>] else g);
          s' = s\<lparr>artboardGrid := g', selectedArtboard := Some pageNum\<rparr>
      in case currentPDF s' of
           None \<Rightarrow> s'
         | Some doc \<Rightarrow> renderPDFPage doc pageNum s')"

subsection \<open>Processing an upload\<close>

definition processImageFile :: "upload \<Rightarrow> state \<Rightarrow> state" where
  "processImageFile f s =
     (case raster f of
        ReadError \<Rightarrow> (showAlert FileReadFailed s)\<lparr>loading := False\<rparr>
      | DecodeError \<Rightarrow> clearCanvas ((showAlert ImageLoadFailed s)\<lparr>loading := False\<rparr>)
      | Pixels w h \<Rightarrow>
          (drawImageToCanvas
             \<lparr>imgWidth = real w, imgHeight = real h, pixels = FilePixels (name f)\<rparr> s)
             \<lparr>loading := False\<rparr>)"

definition errorMessage :: "string option \<Rightarrow> alert" where
  "errorMessage msg =
     (case msg of
        None \<Rightarrow> DocumentProcessingFailed
      | Some m \<Rightarrow>
          (if m \<noteq> [] \<and> includesStr m ''Invalid PDF'' then IncompatibleExportMode
           else DocumentProcessingFailed))"

text \<open>
  The states the page goes through while \<open>processPDFFile\<close> runs, one for each point
  where it gives control back, the last one when its work has ended. The image made
  from a rendered page loads after \<open>renderPDFPage\<close> has returned, so the loading mark
  is removed before the page is drawn.
\<close>

definition processPDFFile_states :: "upload \<Rightarrow> state \<Rightarrow> state list" where
  "processPDFFile_states f s =
     (case document f of
        Inl msg \<Rightarrow>
          [s, showAlert (errorMessage msg) s,
           clearCanvas ((showAlert (errorMessage msg) s)\<lparr>loading := False\<rparr>)]
      | Inr doc \<Rightarrow>
          (let s1 = s\<lparr>currentPDF := Some doc\<rparr>
           in if numPages doc > 1
              then [s, showArtboardSelector doc (numPages doc) s1,
                    (showArtboardSelector doc (numPages doc) s1)\<lparr>loading := False\<rparr>]
              else (case pageImage doc 1 of
                      None \<Rightarrow>
                        [s, s1, showAlert PageRenderFailed s1,
                         (showAlert PageRenderFailed s1)\<lparr>loading := False\<rparr>]
                    | Some img \<Rightarrow>
                        [s, s1, s1\<lparr>loading := False\<rparr>,
                         drawImageToCanvas img (s1\<lparr>loading := False\<rparr>)])))"

definition processPDFFile :: "upload \<Rightarrow> state \<Rightarrow> state" where
  "processPDFFile f s = last (processPDFFile_states f s)"

definition handleFile :: "upload \<Rightarrow> state \<Rightarrow> state" where
  "handleFile f s =
     (let extension = extensionOf (name f)
      in if extension \<notin> set validExtensions then showAlert UnsupportedFormat s
         else
           (let s1 = s\<lparr>currentFileName := stripExtension (name f),
                      fileNameText := name f, fileInfoVisible := True, loading := True\<rparr>;
                s2 = hideArtboardSection s1
            in if extension = ''pdf'' \<or> extension = ''ai'' then processPDFFile f s2
               else processImageFile f s2))"

subsection \<open>Export\<close>

record download =
  filename :: string
  png :: canvas

definition downloadImage :: "state \<Rightarrow> state \<times> download option" where
  "downloadImage s =
     (if \<not> hasImage s then (showAlert NoImageAvailable s, None)
      else (s, Some \<lparr>filename = currentFileName s @ ''_logo.png'', png = previewCanvas s\<rparr>))"

text \<open>
  A state as \<open>clearCanvas\<close> leaves it, with no upload named, nothing loading and no
  message shown yet.
\<close>

definition clearedState :: state where
  "clearedState =
     \<lparr>currentFileName = [], hasImage = False, currentPDF = None, selectedArtboard = None,
      previewCanvas = Blank, saveDisabled = True, fileInfoVisible = False,
      fileNameText = [], loading = False, artboardVisible = False, artboardGrid = [],
      artboardCount = 0, alerts = []\<rparr>"

subsection \<open>The selector on display\<close>





subsection \<open>Example uploads\<close>





definition exampleLogo :: upload where
  "exampleLogo = \<lparr>name = ''logo.png'', raster = Pixels 400 100, document = Inl None\<rparr>"

text \<open>The logo drawn on the canvas.\<close>

definition exampleDrawn :: state where
  "exampleDrawn = handleFile exampleLogo clearedState"

text \<open>An image file that cannot be read.\<close>

definition exampleUnreadable :: upload where
  "exampleUnreadable = \<lparr>name = ''x.png'', raster = ReadError, document = Inl None\<rparr>"

section \<open>Geometry\<close>









section \<open>File names and error messages\<close>

lemma split_not_Nil: "split d str \<noteq> []"
  by (induction str) (auto split: list.splits)

lemma split_no_separator: "d \<notin> set str \<Longrightarrow> split d str = [str]"
  by (induction str) auto

lemma split_append: "split d (pre @ d # suf) = split d pre @ split d suf"
  by (induction pre) (auto simp add: split_not_Nil split: list.splits)

lemma last_split_append: "last (split d (pre @ d # suf)) = last (split d suf)"
  by (simp add: split_append split_not_Nil)

lemma pop_split_final:
  "d \<notin> set suf \<Longrightarrow> pop (split d (pre @ d # suf)) = suf"
  by (simp add: pop_def last_split_append split_no_separator)

lemma stripExtension_no_dot: "CHR ''.'' \<notin> set nm \<Longrightarrow> stripExtension nm = nm"
  by (induction nm) auto

lemma stripExtension_final:
  "suf \<noteq> [] \<Longrightarrow> CHR ''.'' \<notin> set suf \<Longrightarrow> CHR ''/'' \<notin> set suf
   \<Longrightarrow> stripExtension (pre @ CHR ''.'' # suf) = pre"
  by (induction pre) auto

lemma startsWith_iff: "startsWith str pat \<longleftrightarrow> (\<exists>rest. str = pat @ rest)"
  by (induction str pat rule: startsWith.induct) auto

lemma includesStr_iff: "includesStr str pat \<longleftrightarrow> (\<exists>before rest. str = before @ pat @ rest)"
proof (induction str)
  case Nil
  then show ?case by auto
next
  case (Cons c cs)
  show ?case
  proof
    assume "includesStr (c # cs) pat"
    then consider "startsWith (c # cs) pat" | "includesStr cs pat" by auto
    then show "\<exists>before rest. c # cs = before @ pat @ rest"
    proof cases
      case 1
      then obtain rest where "c # cs = pat @ rest" by (auto simp add: startsWith_iff)
      then have "c # cs = [] @ pat @ rest" by simp
      then show ?thesis by blast
    next
      case 2
      then obtain before rest where "cs = before @ pat @ rest" using Cons.IH by auto
      then have "c # cs = (c # before) @ pat @ rest" by simp
      then show ?thesis by blast
    qed
  next
    assume "\<exists>before rest. c # cs = before @ pat @ rest"
    then obtain before rest where eq: "c # cs = before @ pat @ rest" by auto
    show "includesStr (c # cs) pat"
    proof (cases before)
      case Nil
      then have "startsWith (c # cs) pat" using eq by (auto simp add: startsWith_iff)
      then show ?thesis by simp
    next
      case (Cons b bs)
      then have "cs = bs @ pat @ rest" using eq by simp
      then have "includesStr cs pat" using Cons.IH by blast
      then show ?thesis by simp
    qed
  qed
qed

lemma extensionOf_png: "extensionOf ''png'' = ''png''"
  by (simp add: extensionOf_def pop_def toLowerCase_def toLowerChar_def lowerTable_def)

text \<open>
  C10. The extension used to classify an upload is what follows the last dot of its
  name, lower-cased, and the whole name when the name has no dot; removing the
  extension leaves a name with no dot as it is. So a file named \<open>png\<close> is handed
  to \<open>processImageFile\<close>, no message is shown, and once its image is drawn the
  export is named \<open>png_logo.png\<close>.
\<close>

theorem dotless_name_extension:
  "(CHR ''.'' \<notin> set nm \<longrightarrow> extensionOf nm = toLowerCase nm \<and> stripExtension nm = nm)
   \<and> (CHR ''.'' \<notin> set suf \<longrightarrow> extensionOf (pre @ CHR ''.'' # suf) = toLowerCase suf)
   \<and> (let f = \<lparr>name = ''png'', raster = r, document = d\<rparr>
       in extensionOf (name f) = ''png''
        \<and> handleFile f s
            = processImageFile f
                (hideArtboardSection
                   (s\<lparr>currentFileName := ''png'', fileNameText := ''png'',
                      fileInfoVisible := True, loading := True\<rparr>)))
   \<and> (let s' = handleFile \<lparr>name = ''png'', raster = Pixels w h, document = d\<rparr> s
       in alerts s' = alerts s \<and> hasImage s' \<and> currentFileName s' = ''png''
        \<and> snd (downloadImage s')
            = Some \<lparr>filename = ''png_logo.png'', png = previewCanvas s'\<rparr>)"
proof -
  have a: "CHR ''.'' \<notin> set nm \<longrightarrow> extensionOf nm = toLowerCase nm \<and> stripExtension nm = nm"
    by (simp add: extensionOf_def pop_def split_no_separator stripExtension_no_dot)
  have b: "CHR ''.'' \<notin> set suf \<longrightarrow> extensionOf (pre @ CHR ''.'' # suf) = toLowerCase suf"
    by (simp add: extensionOf_def pop_split_final)
  have c: "handleFile \<lparr>name = ''png'', raster = r', document = d\<rparr> s
      = processImageFile \<lparr>name = ''png'', raster = r', document = d\<rparr>
          (hideArtboardSection
             (s\<lparr>currentFileName := ''png'', fileNameText := ''png'',
                fileInfoVisible := True, loading := True\<rparr>))" for r'
    by (simp add: handleFile_def extensionOf_png validExtensions_def Let_def)
  have d: "(let s' = handleFile \<lparr>name = ''png'', raster = Pixels w h, document = d\<rparr> s
       in alerts s' = alerts s \<and> hasImage s' \<and> currentFileName s' = ''png''
        \<and> snd (downloadImage s')
            = Some \<lparr>filename = ''png_logo.png'', png = previewCanvas s'\<rparr>)"
    by (simp add: c Let_def processImageFile_def drawImageToCanvas_def
        hideArtboardSection_def downloadImage_def)
  show ?thesis
    using a b c [of r] d by (simp add: Let_def extensionOf_png)
qed

theorem dotless_name_extension_witness:
  "CHR ''.'' \<notin> set ''README'' \<and> extensionOf ''README'' = ''readme''
   \<and> stripExtension ''README'' = ''README''
   \<and> CHR ''.'' \<notin> set ''PNG'' \<and> extensionOf ''logo.v2.PNG'' = ''png''
   \<and> snd (downloadImage
        (handleFile \<lparr>name = ''png'', raster = Pixels 400 100, document = Inl None\<rparr>
           clearedState))
      = Some \<lparr>filename = ''png_logo.png'',
               png = Drawn \<lparr>imgWidth = 400, imgHeight = 100, pixels = FilePixels ''png''\<rparr>
                       (drawGeometry 400 100)\<rparr>"
  using dotless_name_extension
    [of "''README''" "''PNG''" "''logo.v2''" ReadError "Inl None" clearedState 400 100]
  by (simp add: Let_def toLowerCase_def toLowerChar_def lowerTable_def
      handleFile_def extensionOf_png validExtensions_def processImageFile_def
      drawImageToCanvas_def hideArtboardSection_def clearedState_def)

section \<open>Failure to open a document\<close>

lemma errorMessage_kind:
  "errorMessage msg = IncompatibleExportMode
     \<longleftrightarrow> (\<exists>m before rest. msg = Some m \<and> m = before @ ''Invalid PDF'' @ rest)"
  by (cases msg) (auto simp add: errorMessage_def includesStr_iff)

text \<open>
  C8. When opening the document fails, \<open>processPDFFile\<close> reports the failure as
  \<open>IncompatibleExportMode\<close> exactly when the error has a message in which
  \<open>Invalid PDF\<close> occurs, and as the general document failure otherwise; in both cases
  the canvas is blank afterwards and the file name, the image flag, the document, the
  selection and the thumbnails are reset.
\<close>

theorem processPDFFile_open_failure:
  assumes "document f = Inl msg"
  shows "processPDFFile f s = clearCanvas ((showAlert (errorMessage msg) s)\<lparr>loading := False\<rparr>)
    \<and> (errorMessage msg = IncompatibleExportMode
         \<longleftrightarrow> (\<exists>m before rest. msg = Some m \<and> m = before @ ''Invalid PDF'' @ rest))
    \<and> (errorMessage msg \<noteq> IncompatibleExportMode
         \<longrightarrow> errorMessage msg = DocumentProcessingFailed)
    \<and> alerts (processPDFFile f s) = alerts s @ [errorMessage msg]
    \<and> previewCanvas (processPDFFile f s) = Blank
    \<and> currentFileName (processPDFFile f s) = []
    \<and> \<not> hasImage (processPDFFile f s)
    \<and> currentPDF (processPDFFile f s) = None
    \<and> selectedArtboard (processPDFFile f s) = None
    \<and> artboardGrid (processPDFFile f s) = []
    \<and> \<not> artboardVisible (processPDFFile f s)
    \<and> \<not> loading (processPDFFile f s)"
proof -
  have run: "processPDFFile f s
      = clearCanvas ((showAlert (errorMessage msg) s)\<lparr>loading := False\<rparr>)"
    using assms by (simp add: processPDFFile_def processPDFFile_states_def)
  have kind: "errorMessage msg \<noteq> IncompatibleExportMode
      \<longrightarrow> errorMessage msg = DocumentProcessingFailed"
    by (simp add: errorMessage_def split: option.splits)
  show ?thesis
    unfolding run using kind errorMessage_kind [of msg]
    by (simp add: clearCanvas_def hideArtboardSection_def initCanvas_def showAlert_def)
qed

theorem processPDFFile_open_failure_witness:
  "(let f = \<lparr>name = ''brochure.ai'', raster = DecodeError,
             document = Inl (Some ''InvalidPDFException: Invalid PDF structure.'')\<rparr>;
        g = \<lparr>name = ''brochure.pdf'', raster = DecodeError,
             document = Inl (Some ''Unexpected server response.'')\<rparr>;
        s = handleFile f clearedState;
        t = processPDFFile g exampleDrawn
    in document f = Inl (Some ''InvalidPDFException: Invalid PDF structure.'')
     \<and> errorMessage (Some ''InvalidPDFException: Invalid PDF structure.'')
         = IncompatibleExportMode
     \<and> alerts s = [IncompatibleExportMode]
     \<and> previewCanvas s = Blank \<and> currentFileName s = [] \<and> \<not> hasImage s
     \<and> currentPDF s = None \<and> selectedArtboard s = None \<and> artboardGrid s = []
     \<and> document g = Inl (Some ''Unexpected server response.'')
     \<and> errorMessage (Some ''Unexpected server response.'') \<noteq> IncompatibleExportMode
     \<and> alerts t = alerts exampleDrawn @ [DocumentProcessingFailed]
     \<and> previewCanvas t = Blank \<and> currentFileName t = [] \<and> \<not> hasImage t)"
  using processPDFFile_open_failure
    [of "\<lparr>name = ''brochure.ai'', raster = DecodeError,
          document = Inl (Some ''InvalidPDFException: Invalid PDF structure.'')\<rparr>"
      "Some ''InvalidPDFException: Invalid PDF structure.''"
      "hideArtboardSection (clearedState\<lparr>currentFileName := ''brochure'',
         fileNameText := ''brochure.ai'', fileInfoVisible := True, loading := True\<rparr>)"]
    processPDFFile_open_failure
    [of "\<lparr>name = ''brochure.pdf'', raster = DecodeError,
          document = Inl (Some ''Unexpected server response.'')\<rparr>"
      "Some ''Unexpected server response.''" exampleDrawn]
  by (simp add: Let_def handleFile_def extensionOf_def pop_def toLowerCase_def
      toLowerChar_def lowerTable_def validExtensions_def errorMessage_def
      hideArtboardSection_def clearedState_def clearCanvas_def showAlert_def
      initCanvas_def)

section \<open>Export\<close>

lemma hasImage_renderPDFPage:
  "hasImage (renderPDFPage doc k s) = (pageImage doc k \<noteq> None \<or> hasImage s)"
  by (auto simp add: renderPDFPage_def showAlert_def drawImageToCanvas_def split: option.splits)

lemma hasImage_selectArtboard:
  "hasImage (selectArtboard e k s)
     = ((\<exists>doc. currentPDF s = Some doc \<and> pageImage doc k \<noteq> None) \<or> hasImage s)"
  by (cases "currentPDF s") (simp_all add: selectArtboard_def Let_def hasImage_renderPDFPage)

lemma hasImage_processImageFile:
  "hasImage (processImageFile f s)
     = (case raster f of ReadError \<Rightarrow> hasImage s | DecodeError \<Rightarrow> False | Pixels w h \<Rightarrow> True)"
  by (simp add: processImageFile_def showAlert_def clearCanvas_def hideArtboardSection_def
      initCanvas_def drawImageToCanvas_def split: decoded.splits)

lemma hasImage_processPDFFile:
  "hasImage (processPDFFile f s)
     = (case document f of
          Inl msg \<Rightarrow> False
        | Inr doc \<Rightarrow> if numPages doc > 1 then hasImage s
                     else (pageImage doc 1 \<noteq> None \<or> hasImage s))"
  by (auto simp add: processPDFFile_def processPDFFile_states_def Let_def showAlert_def
      clearCanvas_def hideArtboardSection_def initCanvas_def drawImageToCanvas_def
      showArtboardSelector_def split: sum.splits option.splits)

lemma currentFileName_processImageFile:
  "hasImage (processImageFile f s) \<Longrightarrow> currentFileName (processImageFile f s) = currentFileName s"
  by (simp add: processImageFile_def showAlert_def clearCanvas_def hideArtboardSection_def
      initCanvas_def drawImageToCanvas_def split: decoded.splits)

lemma currentFileName_processPDFFile:
  "hasImage (processPDFFile f s) \<Longrightarrow> currentFileName (processPDFFile f s) = currentFileName s"
  by (auto simp add: processPDFFile_def processPDFFile_states_def Let_def showAlert_def
      clearCanvas_def hideArtboardSection_def initCanvas_def drawImageToCanvas_def
      showArtboardSelector_def split: sum.splits option.splits if_splits)

lemma currentFileName_handleFile:
  assumes "extensionOf (name f) \<in> set validExtensions" and "hasImage (handleFile f s)"
  shows "currentFileName (handleFile f s) = stripExtension (name f)"
proof -
  let ?s2 = "hideArtboardSection (s\<lparr>currentFileName := stripExtension (name f),
      fileNameText := name f, fileInfoVisible := True, loading := True\<rparr>)"
  have nm: "currentFileName ?s2 = stripExtension (name f)"
    by (simp add: hideArtboardSection_def)
  show ?thesis
  proof (cases "extensionOf (name f) = ''pdf'' \<or> extensionOf (name f) = ''ai''")
    case True
    then have eq: "handleFile f s = processPDFFile f ?s2"
      using assms(1) by (simp add: handleFile_def Let_def)
    show ?thesis
      using assms(2) currentFileName_processPDFFile [of f ?s2] nm unfolding eq by simp
  next
    case False
    then have eq: "handleFile f s = processImageFile f ?s2"
      using assms(1) by (simp add: handleFile_def Let_def)
    show ?thesis
      using assms(2) currentFileName_processImageFile [of f ?s2] nm unfolding eq by simp
  qed
qed

text \<open>
  C5. \<open>downloadImage\<close> produces a download exactly when \<open>hasImage\<close> is set, named
  by \<open>currentFileName\<close> followed by \<open>_logo.png\<close>, and it leaves the state as it
  is; when the flag is not set it produces nothing and only shows the message that no
  image is available. \<open>drawImageToCanvas\<close> sets the flag, \<open>clearCanvas\<close> unsets
  it, and nothing else touches it: every other step keeps it, and the flag after an
  upload or a pick is set when an image was drawn, unset when the canvas was cleared,
  and as before otherwise. After an accepted upload that leaves the flag set, the
  download is named by the upload's name without its extension (for a name
  \<open>base.ext\<close> that is \<open>base\<close>).
\<close>

theorem downloadImage_gated_by_hasImage:
  "(hasImage s \<longrightarrow>
      downloadImage s
        = (s, Some \<lparr>filename = currentFileName s @ ''_logo.png'', png = previewCanvas s\<rparr>))
   \<and> (\<not> hasImage s \<longrightarrow>
        downloadImage s = (s\<lparr>alerts := alerts s @ [NoImageAvailable]\<rparr>, None))
   \<and> (snd (downloadImage s) \<noteq> None \<longleftrightarrow> hasImage s)
   \<and> hasImage (drawImageToCanvas img s)
   \<and> \<not> hasImage (clearCanvas s)
   \<and> hasImage (initCanvas s) = hasImage s
   \<and> hasImage (hideArtboardSection s) = hasImage s
   \<and> hasImage (showAlert a s) = hasImage s
   \<and> hasImage (showArtboardSelector doc n s) = hasImage s
   \<and> hasImage (thumbnailTask doc i s) = hasImage s
   \<and> hasImage (renderPDFPage doc k s) = (pageImage doc k \<noteq> None \<or> hasImage s)
   \<and> hasImage (selectArtboard e k s)
        = ((\<exists>doc'. currentPDF s = Some doc' \<and> pageImage doc' k \<noteq> None) \<or> hasImage s)
   \<and> hasImage (processImageFile f s)
        = (case raster f of ReadError \<Rightarrow> hasImage s | DecodeError \<Rightarrow> False
           | Pixels w h \<Rightarrow> True)
   \<and> hasImage (processPDFFile f s)
        = (case document f of
             Inl msg \<Rightarrow> False
           | Inr doc' \<Rightarrow> if numPages doc' > 1 then hasImage s
                         else (pageImage doc' 1 \<noteq> None \<or> hasImage s))
   \<and> (extensionOf (name f) \<in> set validExtensions \<and> hasImage (handleFile f s) \<longrightarrow>
        snd (downloadImage (handleFile f s))
          = Some \<lparr>filename = stripExtension (name f) @ ''_logo.png'',
                   png = previewCanvas (handleFile f s)\<rparr>)
   \<and> (ext \<noteq> [] \<and> CHR ''.'' \<notin> set ext \<and> CHR ''/'' \<notin> set ext \<longrightarrow>
        stripExtension (base @ CHR ''.'' # ext) = base)"
proof -
  have export: "extensionOf (name f) \<in> set validExtensions \<and> hasImage (handleFile f s) \<longrightarrow>
        snd (downloadImage (handleFile f s))
          = Some \<lparr>filename = stripExtension (name f) @ ''_logo.png'',
                   png = previewCanvas (handleFile f s)\<rparr>"
    using currentFileName_handleFile [of f s] by (simp add: downloadImage_def)
  have small: "hasImage (drawImageToCanvas img s)" "\<not> hasImage (clearCanvas s)"
    "hasImage (initCanvas s) = hasImage s" "hasImage (hideArtboardSection s) = hasImage s"
    "hasImage (showAlert a s) = hasImage s"
    "hasImage (showArtboardSelector doc n s) = hasImage s"
    "hasImage (thumbnailTask doc i s) = hasImage s"
    by (simp_all add: drawImageToCanvas_def clearCanvas_def initCanvas_def
        hideArtboardSection_def showAlert_def showArtboardSelector_def thumbnailTask_def)
  have dl: "hasImage s \<longrightarrow>
      downloadImage s
        = (s, Some \<lparr>filename = currentFileName s @ ''_logo.png'', png = previewCanvas s\<rparr>)"
    "\<not> hasImage s \<longrightarrow>
        downloadImage s = (s\<lparr>alerts := alerts s @ [NoImageAvailable]\<rparr>, None)"
    "snd (downloadImage s) \<noteq> None \<longleftrightarrow> hasImage s"
    by (simp_all add: downloadImage_def showAlert_def)
  show ?thesis
    using export small dl hasImage_renderPDFPage [of doc k s] hasImage_selectArtboard [of e k s]
      hasImage_processImageFile [of f s] hasImage_processPDFFile [of f s]
      stripExtension_final [of ext base]
    by blast
qed


theorem downloadImage_gated_by_hasImage_witness:
  "(let f = \<lparr>name = ''logo.png'', raster = Pixels 400 100, document = Inl None\<rparr>;
        s1 = handleFile f clearedState
    in \<not> hasImage clearedState
     \<and> downloadImage clearedState = (clearedState\<lparr>alerts := [NoImageAvailable]\<rparr>, None)
     \<and> extensionOf (name f) \<in> set validExtensions
     \<and> hasImage s1
     \<and> downloadImage s1
         = (s1, Some \<lparr>filename = ''logo_logo.png'',
                      png = Drawn \<lparr>imgWidth = 400, imgHeight = 100,
                                    pixels = FilePixels ''logo.png''\<rparr>
                              (drawGeometry 400 100)\<rparr>)
     \<and> ''png'' \<noteq> [] \<and> CHR ''.'' \<notin> set ''png'' \<and> CHR ''/'' \<notin> set ''png''
     \<and> stripExtension ''logo.png'' = ''logo'')"
  using downloadImage_gated_by_hasImage
    [where s = clearedState
       and f = "\<lparr>name = ''logo.png'', raster = Pixels 400 100, document = Inl None\<rparr>"
       and ext = "''png''" and base = "''logo''"]
    downloadImage_gated_by_hasImage
    [where s = "handleFile \<lparr>name = ''logo.png'', raster = Pixels 400 100,
         document = Inl None\<rparr> clearedState"]
  by (simp add: Let_def handleFile_def extensionOf_def pop_def toLowerCase_def
      toLowerChar_def lowerTable_def validExtensions_def processImageFile_def
      drawImageToCanvas_def hideArtboardSection_def clearedState_def downloadImage_def)

section \<open>Loading a document\<close>






section \<open>Thumbnails\<close>










section \<open>Picking an artboard\<close>

lemma length_unmarkFirst: "length (unmarkFirst g) = length g"
  by (induction g) auto




























text \<open>
  C7, as the script has it. With no document loaded, \<open>selectArtboard\<close> renders
  nothing: the canvas, the image flag, the file name, the document and the messages are
  as they were. It still moves the mark to the element given and sets
  \<open>selectedArtboard\<close> to the page number; where the grid is empty it stays empty.
\<close>

theorem selectArtboard_without_document:
  assumes "currentPDF s = None"
  shows "selectArtboard e k s
      = s\<lparr>artboardGrid :=
            (if e < length (artboardGrid s)
             then (unmarkFirst (artboardGrid s))
                    [e := (unmarkFirst (artboardGrid s) ! e)\<lparr>selected := True\<rparr>]
             else unmarkFirst (artboardGrid s)),
          selectedArtboard := Some k\<rparr>
    \<and> previewCanvas (selectArtboard e k s) = previewCanvas s
    \<and> hasImage (selectArtboard e k s) = hasImage s
    \<and> currentFileName (selectArtboard e k s) = currentFileName s
    \<and> currentPDF (selectArtboard e k s) = None
    \<and> alerts (selectArtboard e k s) = alerts s
    \<and> (artboardGrid s = [] \<longrightarrow> artboardGrid (selectArtboard e k s) = [])"
  using assms by (simp add: selectArtboard_def Let_def length_unmarkFirst)

theorem selectArtboard_without_document_witness:
  "currentPDF clearedState = None
   \<and> selectArtboard 0 1 clearedState = clearedState\<lparr>selectedArtboard := Some 1\<rparr>
   \<and> previewCanvas (selectArtboard 0 1 clearedState) = Blank
   \<and> artboardGrid clearedState = []
   \<and> artboardGrid (selectArtboard 0 1 clearedState) = []"
  using selectArtboard_without_document [of clearedState 0 1]
  by (simp add: clearedState_def)

text \<open>
  In the cleared state, with no document and nothing selected, a pick of page 1 sets
  \<open>selectedArtboard\<close> to 1.
\<close>

theorem pick_without_document_counterexample:
  "currentPDF clearedState = None
   \<and> selectedArtboard clearedState = None
   \<and> selectedArtboard (selectArtboard 0 1 clearedState) = Some 1"
  by (simp add: clearedState_def selectArtboard_def Let_def)

section \<open>Failure to read a file\<close>

lemma exampleDrawn_value:
  "exampleDrawn =
     \<lparr>currentFileName = ''logo'', hasImage = True, currentPDF = None,
      selectedArtboard = None,
      previewCanvas = Drawn \<lparr>imgWidth = 400, imgHeight = 100, pixels = FilePixels ''logo.png''\<rparr>
                        (drawGeometry 400 100),
      saveDisabled = False, fileInfoVisible = True, fileNameText = ''logo.png'',
      loading = False, artboardVisible = False, artboardGrid = [], artboardCount = 0,
      alerts = []\<rparr>"
  by (simp add: exampleDrawn_def exampleLogo_def handleFile_def extensionOf_def pop_def
      toLowerCase_def toLowerChar_def lowerTable_def validExtensions_def Let_def
      processImageFile_def drawImageToCanvas_def hideArtboardSection_def clearedState_def)

text \<open>
  C2, at a read failure. With the logo drawn, an upload of an image file that cannot
  be read leaves the logo on the canvas and the image flag set, under the new file's
  name: \<open>reader.onerror\<close> shows its message and removes the loading mark, and does
  not call \<open>clearCanvas\<close> as \<open>img.onerror\<close> does. An export then saves the old
  image as \<open>x_logo.png\<close>.
\<close>

theorem read_failure_keeps_previous_image:
  "raster exampleUnreadable = ReadError
   \<and> handleFile exampleUnreadable exampleDrawn
       = exampleDrawn\<lparr>currentFileName := ''x'', fileNameText := ''x.png'',
           alerts := [FileReadFailed]\<rparr>
   \<and> previewCanvas (handleFile exampleUnreadable exampleDrawn) \<noteq> Blank
   \<and> hasImage (handleFile exampleUnreadable exampleDrawn)
   \<and> snd (downloadImage (handleFile exampleUnreadable exampleDrawn))
       = Some \<lparr>filename = ''x_logo.png'', png = previewCanvas exampleDrawn\<rparr>"
  by (simp add: exampleDrawn_value exampleUnreadable_def handleFile_def extensionOf_def pop_def
      toLowerCase_def toLowerChar_def lowerTable_def validExtensions_def Let_def
      processImageFile_def showAlert_def hideArtboardSection_def downloadImage_def)

end
